theory Spec2Isabelle
  imports Complex_Main "HOL-Library.Char_ord" "HOL-Library.List_Lexorder"
begin

section \<open>Values of the Python program\<close>

text \<open>
  A log line is decoded by \<^verbatim>\<open>json.loads\<close>; the result is a Python value built from
  \<^verbatim>\<open>None\<close>, \<^verbatim>\<open>bool\<close>, \<^verbatim>\<open>int\<close>, \<^verbatim>\<open>float\<close>, \<^verbatim>\<open>str\<close>, \<^verbatim>\<open>list\<close> and \<^verbatim>\<open>dict\<close>.
  A dict is an association list read with \<open>map_of\<close>.  Python floats are idealised
  as exact reals: rounding, NaN, infinities and the \<^verbatim>\<open>OverflowError\<close> of converting a
  huge int are outside the model.  Strings are byte strings.
\<close>

datatype json =
    JNull
  | JBool bool
  | JInt int
  | JFloat real
  | JString string
  | JArray "json list"
  | JObject "(string \<times> json) list"

datatype py_error = AttributeError | OSError

text \<open>
  The library functions the code calls and that are not part of the repository:
  \<^verbatim>\<open>json.loads\<close> (\<open>None\<close> is \<^verbatim>\<open>JSONDecodeError\<close>), \<^verbatim>\<open>float\<close> of a \<^verbatim>\<open>str\<close>
  (\<open>None\<close> is \<^verbatim>\<open>ValueError\<close>), \<^verbatim>\<open>str\<close> of a value that is not a \<^verbatim>\<open>str\<close>, and
  \<^verbatim>\<open>json.dumps\<close>.  Every function below takes them as a parameter.
\<close>

record pylib =
  loads :: "string \<Rightarrow> json option"
  float_of_str :: "string \<Rightarrow> real option"
  str_of :: "json \<Rightarrow> string"
  dumps :: "json \<Rightarrow> string"

text \<open>Truth value of a Python object (\<^verbatim>\<open>if x:\<close>, \<^verbatim>\<open>x or y\<close>).\<close>

fun truthy :: "json \<Rightarrow> bool" where
  "truthy JNull = False"
| "truthy (JBool b) = b"
| "truthy (JInt i) = (i \<noteq> 0)"
| "truthy (JFloat r) = (r \<noteq> 0)"
| "truthy (JString s) = (s \<noteq> [])"
| "truthy (JArray xs) = (xs \<noteq> [])"
| "truthy (JObject kvs) = (kvs \<noteq> [])"

definition py_or :: "json \<Rightarrow> json \<Rightarrow> json" where
  "py_or a b = (if truthy a then a else b)"

text \<open>\<^verbatim>\<open>isinstance(x, (int, float))\<close>: \<^verbatim>\<open>bool\<close> is a subclass of \<^verbatim>\<open>int\<close>.\<close>

fun is_number :: "json \<Rightarrow> bool" where
  "is_number (JBool b) = True"
| "is_number (JInt i) = True"
| "is_number (JFloat r) = True"
| "is_number v = False"

text \<open>The numeric value of a number, as \<^verbatim>\<open>float(x)\<close> and \<^verbatim>\<open>x == 0\<close> see it.\<close>

fun num_val :: "json \<Rightarrow> real" where
  "num_val (JBool b) = (if b then 1 else 0)"
| "num_val (JInt i) = real_of_int i"
| "num_val (JFloat r) = r"
| "num_val v = 0"

text \<open>\<^verbatim>\<open>int(x)\<close> of a number truncates towards zero.\<close>

fun py_int :: "json \<Rightarrow> int" where
  "py_int (JBool b) = (if b then 1 else 0)"
| "py_int (JInt i) = i"
| "py_int (JFloat r) = (if 0 \<le> r then \<lfloor>r\<rfloor> else \<lceil>r\<rceil>)"
| "py_int v = 0"

text \<open>
  \<^verbatim>\<open>float(x)\<close> under \<^verbatim>\<open>except (TypeError, ValueError)\<close>: \<open>None\<close> when either is
  raised (\<^verbatim>\<open>None\<close>, a list and a dict raise \<^verbatim>\<open>TypeError\<close>, a string that is not a
  number raises \<^verbatim>\<open>ValueError\<close>).
\<close>

fun py_float :: "pylib \<Rightarrow> json \<Rightarrow> real option" where
  "py_float lib JNull = None"
| "py_float lib (JBool b) = Some (if b then 1 else 0)"
| "py_float lib (JInt i) = Some (real_of_int i)"
| "py_float lib (JFloat r) = Some r"
| "py_float lib (JString s) = float_of_str lib s"
| "py_float lib (JArray xs) = None"
| "py_float lib (JObject kvs) = None"

fun py_str :: "pylib \<Rightarrow> json \<Rightarrow> string" where
  "py_str lib (JString s) = s"
| "py_str lib v = str_of lib v"

text \<open>\<^verbatim>\<open>rec.get(k)\<close> on a dict: \<^verbatim>\<open>None\<close> when the key is absent.\<close>

definition dict_get :: "(string \<times> json) list \<Rightarrow> string \<Rightarrow> json" where
  "dict_get kvs k = (case map_of kvs k of None \<Rightarrow> JNull | Some v \<Rightarrow> v)"

section \<open>Text files\<close>

text \<open>
  \<^verbatim>\<open>str.strip()\<close> removes leading and trailing whitespace; on bytes below 128 these
  are 9..13, 28..31 and the space.
\<close>

definition isspace :: "char \<Rightarrow> bool" where
  "isspace c = (let n = (of_char c :: nat) in (9 \<le> n \<and> n \<le> 13) \<or> (28 \<le> n \<and> n \<le> 32))"

definition strip :: "string \<Rightarrow> string" where
  "strip s = rev (dropWhile isspace (rev (dropWhile isspace s)))"

text \<open>
  The next line of a text: up to and including the first newline, or all of the
  text when it holds none (a last line without terminator).
\<close>

definition readline :: "string \<Rightarrow> string" where
  "readline s =
     (case dropWhile (\<lambda>c. c \<noteq> CHR 0x0A) s of
        [] \<Rightarrow> s
      | c # rest \<Rightarrow> takeWhile (\<lambda>c. c \<noteq> CHR 0x0A) s @ [c])"

text \<open>\<^verbatim>\<open>f.readlines()\<close>: every line with its terminator, the last one maybe without.\<close>

fun readlines_from :: "string \<Rightarrow> string \<Rightarrow> string list" where
  "readlines_from cur [] = (if cur = [] then [] else [cur])"
| "readlines_from cur (c # cs) =
     (if c = CHR 0x0A then (cur @ [c]) # readlines_from [] cs
      else readlines_from (cur @ [c]) cs)"

definition readlines :: "string \<Rightarrow> string list" where
  "readlines s = readlines_from [] s"

section \<open>Per-day state (webserver.py)\<close>

record day_state =
  date :: string
  total_probes :: int
  total_sent :: int
  total_received :: int
  loss_sum :: real
  loss_count :: int
  good_probes :: int
  degraded_probes :: int
  down_probes :: int
  rtt_sum :: real
  rtt_count :: int
  rtt_min :: "real option"
  rtt_max :: "real option"
  targets :: "string set"
  public_ips :: "string set"

definition new_day_state :: "string \<Rightarrow> day_state" where
  "new_day_state day =
     \<lparr>date = day, total_probes = 0, total_sent = 0, total_received = 0,
      loss_sum = 0, loss_count = 0, good_probes = 0, degraded_probes = 0,
      down_probes = 0, rtt_sum = 0, rtt_count = 0, rtt_min = None, rtt_max = None,
      targets = {}, public_ips = {}\<rparr>"

text \<open>
  The dict \<^verbatim>\<open>daily\<close> keeps its keys in insertion order: an association list with
  one entry per day.  \<^verbatim>\<open>_ensure_day_state\<close> adds a fresh entry at the end when the
  day is new.
\<close>

type_synonym daily = "(string \<times> day_state) list"

definition ensure_day_state :: "daily \<Rightarrow> string \<Rightarrow> daily" where
  "ensure_day_state daily day =
     (if map_of daily day = None then daily @ [(day, new_day_state day)] else daily)"

text \<open>Assignment through the reference \<^verbatim>\<open>d = daily[day]\<close>: the entry is replaced in place.\<close>

fun store_day :: "daily \<Rightarrow> string \<Rightarrow> day_state \<Rightarrow> daily" where
  "store_day [] day d = []"
| "store_day ((k, v) # rest) day d =
     (if k = day then (k, d) # rest else (k, v) # store_day rest day d)"

text \<open>
  The body of the loop of \<^verbatim>\<open>build_daily_summary_from_file\<close> after
  \<^verbatim>\<open>d = _ensure_day_state(daily, day)\<close>, in the source's order: the probe count,
  sent and received, loss and its classification, the round-trip time, the names.
\<close>

definition acc_sent_received :: "(string \<times> json) list \<Rightarrow> day_state \<Rightarrow> day_state" where
  "acc_sent_received rec d =
     (let sent = dict_get rec ''sent'';
          recv = dict_get rec ''received'';
          d1 = (if is_number sent then d\<lparr>total_sent := total_sent d + py_int sent\<rparr> else d)
      in if is_number recv then d1\<lparr>total_received := total_received d1 + py_int recv\<rparr>
         else d1)"

definition acc_loss :: "(string \<times> json) list \<Rightarrow> day_state \<Rightarrow> day_state" where
  "acc_loss rec d =
     (let loss = dict_get rec ''loss_pct''
      in if is_number loss then
           (let d1 = d\<lparr>loss_sum := loss_sum d + num_val loss,
                       loss_count := loss_count d + 1\<rparr>
            in if num_val loss = 0 then d1\<lparr>good_probes := good_probes d1 + 1\<rparr>
               else if num_val loss = 100 then d1\<lparr>down_probes := down_probes d1 + 1\<rparr>
               else d1\<lparr>degraded_probes := degraded_probes d1 + 1\<rparr>)
         else d)"

definition acc_rtt :: "pylib \<Rightarrow> (string \<times> json) list \<Rightarrow> day_state \<Rightarrow> day_state" where
  "acc_rtt lib rec d =
     (case py_float lib (dict_get rec ''rtt_avg_ms'') of
        None \<Rightarrow> d
      | Some rtt_val \<Rightarrow>
          (let d1 = d\<lparr>rtt_sum := rtt_sum d + rtt_val, rtt_count := rtt_count d + 1\<rparr>;
               d2 = (case rtt_min d1 of
                       None \<Rightarrow> d1\<lparr>rtt_min := Some rtt_val\<rparr>
                     | Some m \<Rightarrow> if rtt_val < m then d1\<lparr>rtt_min := Some rtt_val\<rparr> else d1)
           in case rtt_max d2 of
                None \<Rightarrow> d2\<lparr>rtt_max := Some rtt_val\<rparr>
              | Some m \<Rightarrow> if rtt_val > m then d2\<lparr>rtt_max := Some rtt_val\<rparr> else d2))"

definition acc_names :: "pylib \<Rightarrow> (string \<times> json) list \<Rightarrow> day_state \<Rightarrow> day_state" where
  "acc_names lib rec d =
     (let tgt = py_or (dict_get rec ''target'') (dict_get rec ''dst_host'');
          d1 = (if truthy tgt then d\<lparr>targets := insert (py_str lib tgt) (targets d)\<rparr> else d);
          pub = dict_get rec ''public_ip''
      in if truthy pub then d1\<lparr>public_ips := insert (py_str lib pub) (public_ips d1)\<rparr>
         else d1)"

definition merge_record :: "pylib \<Rightarrow> (string \<times> json) list \<Rightarrow> day_state \<Rightarrow> day_state" where
  "merge_record lib rec d =
     acc_names lib rec
       (acc_rtt lib rec
          (acc_loss rec
             (acc_sent_received rec (d\<lparr>total_probes := total_probes d + 1\<rparr>))))"

text \<open>
  One line of the loop.  A blank line, a line that is not JSON and a record whose
  timestamp is missing or falsy are skipped.  \<^verbatim>\<open>rec.get\<close> on a value that is not a
  dict, and \<^verbatim>\<open>ts.split\<close> on a truthy timestamp that is not a string, raise
  \<^verbatim>\<open>AttributeError\<close>, which the function does not catch.  The day is
  \<^verbatim>\<open>ts.split("T")[0]\<close>.
\<close>

definition merge_line :: "pylib \<Rightarrow> string \<Rightarrow> daily \<Rightarrow> py_error + daily" where
  "merge_line lib line daily =
     (let line = strip line
      in if line = [] then Inr daily
         else case loads lib line of
                None \<Rightarrow> Inr daily
              | Some (JObject rec) \<Rightarrow>
                  (let ts = dict_get rec ''timestamp''
                   in if \<not> truthy ts then Inr daily
                      else case ts of
                             JString s \<Rightarrow>
                               (let day = takeWhile (\<lambda>c. c \<noteq> CHR ''T'') s;
                                    daily1 = ensure_day_state daily day
                                in case map_of daily1 day of
                                     None \<Rightarrow> Inr daily1
                                   | Some d \<Rightarrow> Inr (store_day daily1 day (merge_record lib rec d)))
                           | _ \<Rightarrow> Inl AttributeError)
              | Some _ \<Rightarrow> Inl AttributeError)"

text \<open>
  The loop over the lines.  \<^verbatim>\<open>daily\<close> is mutated in place, so when a line raises,
  the days hold what the lines before it merged.
\<close>

fun merge_lines :: "pylib \<Rightarrow> string list \<Rightarrow> daily \<Rightarrow> py_error option \<times> daily" where
  "merge_lines lib [] daily = (None, daily)"
| "merge_lines lib (l # ls) daily =
     (case merge_line lib l daily of
        Inl e \<Rightarrow> (Some e, daily)
      | Inr daily1 \<Rightarrow> merge_lines lib ls daily1)"

section \<open>Rendering the summary\<close>

text \<open>
  One row of the summary.  The keys a row shares with the per-day state carry the
  prefix \<open>row_\<close> here.
\<close>

record day_summary =
  row_date :: string
  row_total_probes :: int
  uptime_pct :: real
  avg_loss_pct :: real
  avg_rtt_ms :: "real option"
  min_rtt_ms :: "real option"
  max_rtt_ms :: "real option"
  row_good_probes :: int
  row_degraded_probes :: int
  row_down_probes :: int
  row_targets :: "string list"
  row_public_ips :: "string list"

definition summary_row :: "string \<Rightarrow> day_state \<Rightarrow> day_summary" where
  "summary_row day d =
     \<lparr>row_date = day,
      row_total_probes = total_probes d,
      uptime_pct =
        (if total_probes d > 0
         then 100 * real_of_int (total_probes d - down_probes d) / real_of_int (total_probes d)
         else 0),
      avg_loss_pct =
        (if loss_count d > 0 then loss_sum d / real_of_int (loss_count d) else 0),
      avg_rtt_ms =
        (if rtt_count d > 0 then Some (rtt_sum d / real_of_int (rtt_count d)) else None),
      min_rtt_ms = rtt_min d,
      max_rtt_ms = rtt_max d,
      row_good_probes = good_probes d,
      row_degraded_probes = degraded_probes d,
      row_down_probes = down_probes d,
      row_targets = sorted_list_of_set (targets d),
      row_public_ips = sorted_list_of_set (public_ips d)\<rparr>"

definition summaries_from_state :: "daily \<Rightarrow> day_summary list" where
  "summaries_from_state daily =
     sort_key row_date (map (\<lambda>(day, d). summary_row day d) daily)"

section \<open>The file handle\<close>

text \<open>
  A file opened in text mode, as far as the code uses it: iteration with
  \<^verbatim>\<open>for line in f\<close>, \<^verbatim>\<open>seek\<close> and \<^verbatim>\<open>tell\<close>.  CPython's \<^verbatim>\<open>TextIOWrapper\<close> switches
  \<^verbatim>\<open>tell\<close> off while the file is iterated: \<^verbatim>\<open>__next__\<close> clears the flag
  \<^verbatim>\<open>telling\<close> before it reads a line and sets it again only when it reaches the end
  of the file, and \<^verbatim>\<open>tell()\<close> with the flag cleared raises
  \<^verbatim>\<open>OSError("telling position disabled by next() call")\<close>.  Offsets are byte offsets.
\<close>

record handle =
  h_text :: string
  h_pos :: nat
  telling :: bool

definition open_text :: "string \<Rightarrow> handle" where
  "open_text s = \<lparr>h_text = s, h_pos = 0, telling = True\<rparr>"

definition seek :: "handle \<Rightarrow> nat \<Rightarrow> handle" where
  "seek h n = h\<lparr>h_pos := n\<rparr>"

definition next_line :: "handle \<Rightarrow> string option \<times> handle" where
  "next_line h =
     (let line = readline (drop (h_pos h) (h_text h))
      in if line = [] then (None, h\<lparr>telling := True\<rparr>)
         else (Some line, h\<lparr>h_pos := h_pos h + length line, telling := False\<rparr>))"

definition tell :: "handle \<Rightarrow> py_error + nat" where
  "tell h = (if telling h then Inr (h_pos h) else Inl OSError)"

lemma readline_length: "length (readline s) \<le> length s"
proof (cases "dropWhile (\<lambda>c. c \<noteq> CHR 0x0A) s")
  case Nil
  show ?thesis unfolding readline_def Nil by simp
next
  case (Cons c rest)
  have "length s = length (takeWhile (\<lambda>c. c \<noteq> CHR 0x0A) s @ dropWhile (\<lambda>c. c \<noteq> CHR 0x0A) s)"
    by simp
  with Cons show ?thesis by (simp add: readline_def)
qed

lemma next_line_Some:
  assumes "next_line h = (Some line, h1)"
  shows "h_text h1 = h_text h" and "h_pos h1 = h_pos h + length line"
    and "0 < length line" and "h_pos h + length line \<le> length (h_text h)"
    and "line = readline (drop (h_pos h) (h_text h))" and "\<not> telling h1"
proof -
  let ?l = "readline (drop (h_pos h) (h_text h))"
  from assms have l: "?l \<noteq> []" and line: "line = ?l"
    and h1: "h1 = h\<lparr>h_pos := h_pos h + length ?l, telling := False\<rparr>"
    by (auto simp: next_line_def Let_def split: if_splits)
  show "h_text h1 = h_text h" "h_pos h1 = h_pos h + length line" "\<not> telling h1"
    using h1 line by simp_all
  show "0 < length line" using l line by simp
  show "line = ?l" by (rule line)
  have "length ?l \<le> length (drop (h_pos h) (h_text h))" by (rule readline_length)
  moreover have "h_pos h < length (h_text h)"
  proof (rule ccontr)
    assume "\<not> h_pos h < length (h_text h)"
    then have "drop (h_pos h) (h_text h) = []" by simp
    then have "?l = []" by (simp add: readline_def)
    with l show False by simp
  qed
  ultimately show "h_pos h + length line \<le> length (h_text h)" using line by simp
qed

lemma next_line_measure:
  assumes "next_line h = (Some line, h1)"
  shows "length (h_text h1) - h_pos h1 < length (h_text h) - h_pos h"
  using next_line_Some(1-4) [OF assms] by (simp del: length_greater_0_conv)

text \<open>
  The loop \<^verbatim>\<open>for line in f:\<close> of \<^verbatim>\<open>build_daily_summary_from_file\<close>: it ends at the
  end of the file, or at the first line that raises.
\<close>

function scan_lines :: "pylib \<Rightarrow> handle \<Rightarrow> daily \<Rightarrow> py_error option \<times> daily \<times> handle" where
  "scan_lines lib h daily =
     (case next_line h of
        (None, h1) \<Rightarrow> (None, daily, h1)
      | (Some line, h1) \<Rightarrow>
          (case merge_line lib line daily of
             Inl e \<Rightarrow> (Some e, daily, h1)
           | Inr daily1 \<Rightarrow> scan_lines lib h1 daily1))"
  by pat_completeness auto
termination
  by (relation "measure (\<lambda>(lib, h, daily). length (h_text h) - h_pos h)")
     (auto dest: next_line_measure [OF sym])

declare scan_lines.simps [simp del]

section \<open>The summary cache (webserver.py)\<close>

text \<open>
  \<^verbatim>\<open>SUMMARY_CACHE\<close>.  The key \<^verbatim>\<open>size\<close> is the field \<open>size_c\<close>.  The log file is
  \<open>None\<close> when it does not exist, else its inode number and its bytes; its size is
  the length of the bytes.  A call sees one state of the file: the file does not
  change between \<^verbatim>\<open>os.stat\<close> and the end of the read.
\<close>

record cache =
  daily_state :: daily
  summary :: "day_summary list"
  position :: nat
  inode :: "nat option"
  size_c :: nat
  build_ts :: "real option"

definition reset_summary_cache :: cache where
  "reset_summary_cache =
     \<lparr>daily_state = [], summary = [], position = 0, inode = None, size_c = 0,
      build_ts = None\<rparr>"

text \<open>
  The part of \<^verbatim>\<open>build_daily_summary_from_file\<close> from \<^verbatim>\<open>daily = cache["daily_state"]\<close>
  on: open the file, seek, merge every line, then store the position, the size,
  the inode, the time and the new summary.  When a line raises, the stores after
  the loop are not reached and only the days, mutated in place, have changed.
\<close>

definition rebuild :: "pylib \<Rightarrow> real \<Rightarrow> nat \<Rightarrow> string \<Rightarrow> cache
    \<Rightarrow> (py_error + day_summary list) \<times> cache" where
  "rebuild lib now st_ino text cache =
     (let start_pos = position cache;
          f = open_text text;
          f1 = (if start_pos \<noteq> 0 then seek f start_pos else f)
      in case scan_lines lib f1 (daily_state cache) of
           (Some e, daily, f2) \<Rightarrow> (Inl e, cache\<lparr>daily_state := daily\<rparr>)
         | (None, daily, f2) \<Rightarrow>
             (case tell f2 of
                Inl e \<Rightarrow> (Inl e, cache\<lparr>daily_state := daily\<rparr>)
              | Inr p \<Rightarrow>
                  (let result = summaries_from_state daily
                   in (Inr result,
                       cache\<lparr>daily_state := daily, position := p, size_c := length text,
                             inode := Some st_ino, build_ts := Some now,
                             summary := result\<rparr>))))"

definition build_daily_summary_from_file :: "pylib \<Rightarrow> real \<Rightarrow> (nat \<times> string) option \<Rightarrow> cache
    \<Rightarrow> (py_error + day_summary list) \<times> cache" where
  "build_daily_summary_from_file lib now logfile cache0 =
     (case logfile of
        None \<Rightarrow> (Inr [], reset_summary_cache)
      | Some (st_ino, text) \<Rightarrow>
          (let cache = (if inode cache0 \<noteq> Some st_ino \<or> length text < size_c cache0
                        then reset_summary_cache else cache0)
           in if inode cache = Some st_ino \<and> position cache = length text
                 \<and> summary cache \<noteq> []
              then (Inr (summary cache), cache)
              else rebuild lib now st_ino text cache))"

section \<open>Recent records (webserver.py)\<close>





section \<open>The relay (mqtt_publisher.py)\<close>

text \<open>
  The state of an \<^verbatim>\<open>MqttPublisher\<close>: \<^verbatim>\<open>_last_size\<close>, \<^verbatim>\<open>_last_inode\<close>, and the
  messages the broker has accepted, oldest first.  \<^verbatim>\<open>_publish\<close> returns normally
  whatever happens: without a client nothing is sent, and an exception of
  \<^verbatim>\<open>client.publish\<close> is caught and printed.  The parameter \<open>link\<close> says for a topic
  and a payload whether the broker gets the message.
\<close>

record relay =
  last_size :: nat
  last_inode :: "nat option"
  delivered :: "(string \<times> string) list"

definition publish :: "(string \<Rightarrow> string \<Rightarrow> bool) \<Rightarrow> string \<Rightarrow> string \<Rightarrow> relay \<Rightarrow> relay" where
  "publish link topic payload r =
     (if link topic payload then r\<lparr>delivered := delivered r @ [(topic, payload)]\<rparr> else r)"

text \<open>
  \<^verbatim>\<open>internet_up = loss is not None and float(loss) < 100\<close> under
  \<^verbatim>\<open>except (TypeError, ValueError): internet_up = None\<close>.  When \<^verbatim>\<open>loss\<close> is \<^verbatim>\<open>None\<close>
  the conjunction is the value of its first operand, \<^verbatim>\<open>False\<close>.
\<close>

definition internet_up :: "pylib \<Rightarrow> json \<Rightarrow> json" where
  "internet_up lib loss =
     (if loss = JNull then JBool False
      else case py_float lib loss of
             None \<Rightarrow> JNull
           | Some v \<Rightarrow> JBool (v < 100))"

definition status_record :: "pylib \<Rightarrow> (string \<times> json) list \<Rightarrow> json" where
  "status_record lib record =
     (let loss = dict_get record ''loss_pct''
      in JObject
           [(''timestamp'', dict_get record ''timestamp''),
            (''target'', py_or (dict_get record ''target'') (dict_get record ''dst_host'')),
            (''loss_pct'', loss),
            (''rtt_avg_ms'', dict_get record ''rtt_avg_ms''),
            (''internet_up'', internet_up lib loss)])"


text \<open>
  The loop \<^verbatim>\<open>for line in handle:\<close> of \<^verbatim>\<open>MqttPublisher.run\<close>.  It calls
  \<^verbatim>\<open>handle.tell()\<close> in its body, for every line that is not blank.  An exception
  leaves the loop with the state reached so far.
\<close>

function relay_lines :: "pylib \<Rightarrow> string \<Rightarrow> (string \<Rightarrow> string \<Rightarrow> bool) \<Rightarrow> handle \<Rightarrow> relay
    \<Rightarrow> py_error option \<times> relay" where
  "relay_lines lib prefix link h r =
     (case next_line h of
        (None, h1) \<Rightarrow> (None, r)
      | (Some raw, h1) \<Rightarrow>
          (if strip raw = [] then relay_lines lib prefix link h1 r
           else case tell h1 of
                  Inl e \<Rightarrow> (Some e, r)
                | Inr p \<Rightarrow>
                    (case loads lib (strip raw) of
                       None \<Rightarrow>
                         relay_lines lib prefix link h1
                           (publish link (prefix @ ''/measurements'') (strip raw)
                              (r\<lparr>last_size := p\<rparr>))
                     | Some (JObject record) \<Rightarrow>
                         relay_lines lib prefix link h1
                           (publish link (prefix @ ''/status'')
                              (dumps lib (status_record lib record))
                              (publish link (prefix @ ''/measurements'') (strip raw)
                                 (r\<lparr>last_size := p\<rparr>)))
                     | Some _ \<Rightarrow>
                         (Some AttributeError,
                          publish link (prefix @ ''/measurements'') (strip raw)
                            (r\<lparr>last_size := p\<rparr>)))))"
  by pat_completeness auto
termination
  by (relation "measure (\<lambda>(lib, prefix, link, h, r). length (h_text h) - h_pos h)")
     (auto dest: next_line_measure [OF sym])

declare relay_lines.simps [simp del]

text \<open>
  One pass of the \<^verbatim>\<open>while\<close> loop of \<^verbatim>\<open>run\<close> with the relay enabled.  A missing
  file changes nothing.  A new inode or a shorter file resets \<^verbatim>\<open>_last_size\<close>.  Every
  exception of the read is caught by \<^verbatim>\<open>except Exception\<close>; the pass returns it
  beside the state for the sake of the theorems.
\<close>

definition run_pass :: "pylib \<Rightarrow> string \<Rightarrow> (string \<Rightarrow> string \<Rightarrow> bool) \<Rightarrow> (nat \<times> string) option
    \<Rightarrow> relay \<Rightarrow> py_error option \<times> relay" where
  "run_pass lib prefix link logfile r0 =
     (case logfile of
        None \<Rightarrow> (None, r0)
      | Some (st_ino, text) \<Rightarrow>
          (let r = (if last_inode r0 \<noteq> Some st_ino \<or> length text < last_size r0
                    then r0\<lparr>last_size := 0, last_inode := Some st_ino\<rparr> else r0)
           in relay_lines lib prefix link (seek (open_text text) (last_size r)) r))"

text \<open>
  \<^verbatim>\<open>json.loads\<close> tabulated on the lines of an example: a line of the table decodes
  to the value beside it, every other string is malformed.  Used for concrete
  inputs only.
\<close>

definition table_lib :: "(string \<times> json) list \<Rightarrow> pylib" where
  "table_lib tab =
     \<lparr>loads = map_of tab, float_of_str = (\<lambda>s. None), str_of = (\<lambda>v. []), dumps = (\<lambda>v. [])\<rparr>"

section \<open>Example log lines\<close>

text \<open>
  Lines as the probe writes them, and what \<^verbatim>\<open>json.loads\<close> returns for each.  The
  string \<^verbatim>\<open>not-json\<close> and a cut-off line are not in the table: they are malformed.
\<close>

definition rec_a :: string where
  \<open>rec_a = ''{"timestamp": "2024-06-01T00:00:00Z", "loss_pct": 0, "rtt_avg_ms": 12.5}''\<close>

definition rec_b :: string where
  \<open>rec_b = ''{"timestamp": "2024-06-01T00:01:00Z", "loss_pct": 50}''\<close>

definition rec_c :: string where
  \<open>rec_c = ''{"timestamp": "2024-06-01T00:02:00Z", "loss_pct": 100, "rtt_avg_ms": 18.1}''\<close>

definition rec_d :: string where
  \<open>rec_d = ''{"timestamp": "2024-06-02T00:00:00Z", "loss_pct": 150}''\<close>

definition rec_e :: string where
  \<open>rec_e = ''{"timestamp": "2024-06-02T00:01:00Z", "loss_pct": -5}''\<close>

definition example_lib :: pylib where
  "example_lib = table_lib
     [(rec_a, JObject [(''timestamp'', JString ''2024-06-01T00:00:00Z''),
                       (''loss_pct'', JInt 0), (''rtt_avg_ms'', JFloat 12.5)]),
      (rec_b, JObject [(''timestamp'', JString ''2024-06-01T00:01:00Z''),
                       (''loss_pct'', JInt 50)]),
      (rec_c, JObject [(''timestamp'', JString ''2024-06-01T00:02:00Z''),
                       (''loss_pct'', JInt 100), (''rtt_avg_ms'', JFloat 18.1)]),
      (rec_d, JObject [(''timestamp'', JString ''2024-06-02T00:00:00Z''),
                       (''loss_pct'', JInt 150)]),
      (rec_e, JObject [(''timestamp'', JString ''2024-06-02T00:01:00Z''),
                       (''loss_pct'', JInt (- 5))])]"

text \<open>A text file from its lines, each terminated by a newline.\<close>

definition file_of :: "string list \<Rightarrow> string" where
  "file_of ls = concat (map (\<lambda>l. l @ [CHR 0x0A]) ls)"

text \<open>A log of two blank lines, and the first bytes of a record that is still being written.\<close>

definition blank_log :: "(nat \<times> string) option" where
  "blank_log = Some (11, [CHR 0x0A, CHR 0x0A])"





section \<open>A growing log\<close>

text \<open>A line the loop of the cache gets past: it is blank, or malformed, or a record whose
  timestamp is missing, falsy or a string.  Every other line raises.\<close>

definition line_ok :: "pylib \<Rightarrow> string \<Rightarrow> bool" where
  "line_ok lib line = (case merge_line lib line [] of Inl e \<Rightarrow> False | Inr d \<Rightarrow> True)"

text \<open>A text that is empty or ends in a newline: all of its lines are terminated.\<close>

definition all_terminated :: "string \<Rightarrow> bool" where
  "all_terminated s = (s = [] \<or> last s = CHR 0x0A)"

text \<open>
  A sequence of calls on a file that grows and keeps its inode: before the call at
  time \<open>now\<close> the bytes \<open>chunk\<close> are appended.  The result is the outcome and the
  cache of the last call.
\<close>

fun grow_and_poll :: "pylib \<Rightarrow> nat \<Rightarrow> string \<Rightarrow> (real \<times> string) list
    \<Rightarrow> (py_error + day_summary list) \<times> cache \<Rightarrow> (py_error + day_summary list) \<times> cache" where
  "grow_and_poll lib st_ino text [] rc = rc"
| "grow_and_poll lib st_ino text ((now, chunk) # rest) rc =
     grow_and_poll lib st_ino (text @ chunk) rest
       (build_daily_summary_from_file lib now (Some (st_ino, text @ chunk)) (snd rc))"

text \<open>The state of the cache after the text has been read in full without error.\<close>

definition read_all :: "pylib \<Rightarrow> nat \<Rightarrow> string \<Rightarrow> (py_error + day_summary list) \<times> cache \<Rightarrow> bool" where
  "read_all lib st_ino text rc \<longleftrightarrow>
     (let d = snd (merge_lines lib (readlines text) [])
      in fst rc = Inr (summaries_from_state d)
         \<and> daily_state (snd rc) = d \<and> summary (snd rc) = summaries_from_state d
         \<and> position (snd rc) = length text \<and> size_c (snd rc) = length text
         \<and> inode (snd rc) = Some st_ino)"

section \<open>What merging one record does to each field\<close>

lemma acc_names_fields [simp]:
  "total_probes (acc_names lib rec d) = total_probes d"
  "good_probes (acc_names lib rec d) = good_probes d"
  "degraded_probes (acc_names lib rec d) = degraded_probes d"
  "down_probes (acc_names lib rec d) = down_probes d"
  "loss_sum (acc_names lib rec d) = loss_sum d"
  "loss_count (acc_names lib rec d) = loss_count d"
  "rtt_sum (acc_names lib rec d) = rtt_sum d"
  "rtt_count (acc_names lib rec d) = rtt_count d"
  "rtt_min (acc_names lib rec d) = rtt_min d"
  "rtt_max (acc_names lib rec d) = rtt_max d"
  by (simp_all add: acc_names_def Let_def)

lemma acc_sent_received_fields [simp]:
  "total_probes (acc_sent_received rec d) = total_probes d"
  "good_probes (acc_sent_received rec d) = good_probes d"
  "degraded_probes (acc_sent_received rec d) = degraded_probes d"
  "down_probes (acc_sent_received rec d) = down_probes d"
  "loss_sum (acc_sent_received rec d) = loss_sum d"
  "loss_count (acc_sent_received rec d) = loss_count d"
  "rtt_sum (acc_sent_received rec d) = rtt_sum d"
  "rtt_count (acc_sent_received rec d) = rtt_count d"
  "rtt_min (acc_sent_received rec d) = rtt_min d"
  "rtt_max (acc_sent_received rec d) = rtt_max d"
  by (simp_all add: acc_sent_received_def Let_def)

lemma acc_loss_other_fields [simp]:
  "total_probes (acc_loss rec d) = total_probes d"
  "rtt_sum (acc_loss rec d) = rtt_sum d"
  "rtt_count (acc_loss rec d) = rtt_count d"
  "rtt_min (acc_loss rec d) = rtt_min d"
  "rtt_max (acc_loss rec d) = rtt_max d"
  by (simp_all add: acc_loss_def Let_def)

lemma acc_rtt_other_fields [simp]:
  "total_probes (acc_rtt lib rec d) = total_probes d"
  "good_probes (acc_rtt lib rec d) = good_probes d"
  "degraded_probes (acc_rtt lib rec d) = degraded_probes d"
  "down_probes (acc_rtt lib rec d) = down_probes d"
  "loss_sum (acc_rtt lib rec d) = loss_sum d"
  "loss_count (acc_rtt lib rec d) = loss_count d"
  by (simp_all add: acc_rtt_def Let_def split: option.splits)

lemma acc_loss_fields:
  "good_probes (acc_loss rec d) =
     (if is_number (dict_get rec ''loss_pct'') \<and> num_val (dict_get rec ''loss_pct'') = 0
      then good_probes d + 1 else good_probes d)"
  "down_probes (acc_loss rec d) =
     (if is_number (dict_get rec ''loss_pct'') \<and> num_val (dict_get rec ''loss_pct'') = 100
      then down_probes d + 1 else down_probes d)"
  "degraded_probes (acc_loss rec d) =
     (if is_number (dict_get rec ''loss_pct'') \<and> num_val (dict_get rec ''loss_pct'') \<noteq> 0
         \<and> num_val (dict_get rec ''loss_pct'') \<noteq> 100
      then degraded_probes d + 1 else degraded_probes d)"
  "loss_sum (acc_loss rec d) =
     (if is_number (dict_get rec ''loss_pct'')
      then loss_sum d + num_val (dict_get rec ''loss_pct'') else loss_sum d)"
  "loss_count (acc_loss rec d) =
     (if is_number (dict_get rec ''loss_pct'') then loss_count d + 1 else loss_count d)"
  by (simp_all add: acc_loss_def Let_def)

lemma acc_rtt_fields:
  "rtt_sum (acc_rtt lib rec d) =
     (case py_float lib (dict_get rec ''rtt_avg_ms'') of
        None \<Rightarrow> rtt_sum d | Some v \<Rightarrow> rtt_sum d + v)"
  "rtt_count (acc_rtt lib rec d) =
     (case py_float lib (dict_get rec ''rtt_avg_ms'') of
        None \<Rightarrow> rtt_count d | Some v \<Rightarrow> rtt_count d + 1)"
  "rtt_min (acc_rtt lib rec d) =
     (case py_float lib (dict_get rec ''rtt_avg_ms'') of
        None \<Rightarrow> rtt_min d
      | Some v \<Rightarrow> (case rtt_min d of None \<Rightarrow> Some v | Some m \<Rightarrow> Some (min m v)))"
  "rtt_max (acc_rtt lib rec d) =
     (case py_float lib (dict_get rec ''rtt_avg_ms'') of
        None \<Rightarrow> rtt_max d
      | Some v \<Rightarrow> (case rtt_max d of None \<Rightarrow> Some v | Some m \<Rightarrow> Some (max m v)))"
  by (simp_all add: acc_rtt_def Let_def min_def max_def split: option.splits)

lemma merge_record_loss:
  "total_probes (merge_record lib rec d) = total_probes d + 1"
  "good_probes (merge_record lib rec d) =
     (if is_number (dict_get rec ''loss_pct'') \<and> num_val (dict_get rec ''loss_pct'') = 0
      then good_probes d + 1 else good_probes d)"
  "down_probes (merge_record lib rec d) =
     (if is_number (dict_get rec ''loss_pct'') \<and> num_val (dict_get rec ''loss_pct'') = 100
      then down_probes d + 1 else down_probes d)"
  "degraded_probes (merge_record lib rec d) =
     (if is_number (dict_get rec ''loss_pct'') \<and> num_val (dict_get rec ''loss_pct'') \<noteq> 0
         \<and> num_val (dict_get rec ''loss_pct'') \<noteq> 100
      then degraded_probes d + 1 else degraded_probes d)"
  "loss_sum (merge_record lib rec d) =
     (if is_number (dict_get rec ''loss_pct'')
      then loss_sum d + num_val (dict_get rec ''loss_pct'') else loss_sum d)"
  "loss_count (merge_record lib rec d) =
     (if is_number (dict_get rec ''loss_pct'') then loss_count d + 1 else loss_count d)"
  by (simp_all add: merge_record_def acc_loss_fields)

lemma merge_record_rtt:
  "rtt_sum (merge_record lib rec d) =
     (case py_float lib (dict_get rec ''rtt_avg_ms'') of
        None \<Rightarrow> rtt_sum d | Some v \<Rightarrow> rtt_sum d + v)"
  "rtt_count (merge_record lib rec d) =
     (case py_float lib (dict_get rec ''rtt_avg_ms'') of
        None \<Rightarrow> rtt_count d | Some v \<Rightarrow> rtt_count d + 1)"
  "rtt_min (merge_record lib rec d) =
     (case py_float lib (dict_get rec ''rtt_avg_ms'') of
        None \<Rightarrow> rtt_min d
      | Some v \<Rightarrow> (case rtt_min d of None \<Rightarrow> Some v | Some m \<Rightarrow> Some (min m v)))"
  "rtt_max (merge_record lib rec d) =
     (case py_float lib (dict_get rec ''rtt_avg_ms'') of
        None \<Rightarrow> rtt_max d
      | Some v \<Rightarrow> (case rtt_max d of None \<Rightarrow> Some v | Some m \<Rightarrow> Some (max m v)))"
  by (simp_all add: merge_record_def acc_rtt_fields split: option.splits)

section \<open>Lines of a text and the loop over them\<close>

lemma readline_Nil [simp]: "readline [] = []"
  by (simp add: readline_def)

lemma readline_Cons:
  "readline (c # cs) = (if c = CHR 0x0A then [c] else c # readline cs)"
proof (cases "dropWhile (\<lambda>c. c \<noteq> CHR 0x0A) cs")
  case Nil
  show ?thesis unfolding readline_def by (simp add: Nil)
next
  case (Cons x rest)
  show ?thesis unfolding readline_def by (simp add: Cons)
qed

lemma readline_Nil_iff [simp]: "readline s = [] \<longleftrightarrow> s = []"
  by (cases s) (simp_all add: readline_Cons)

lemma readlines_from_step:
  "readlines_from cur s =
     (if s = [] then (if cur = [] then [] else [cur])
      else (cur @ readline s) # readlines_from [] (drop (length (readline s)) s))"
proof (induction s arbitrary: cur)
  case Nil
  show ?case by simp
next
  case (Cons c cs)
  show ?case
  proof (cases "c = CHR 0x0A")
    case True
    then show ?thesis by (simp add: readline_Cons)
  next
    case False
    then show ?thesis
      using Cons.IH [of "cur @ [c]"] by (simp add: readline_Cons)
  qed
qed

lemma readlines_unfold:
  "s \<noteq> [] \<Longrightarrow> readlines s = readline s # readlines (drop (length (readline s)) s)"
  unfolding readlines_def by (subst readlines_from_step) simp

lemma readlines_Nil [simp]: "readlines [] = []"
  by (simp add: readlines_def)

lemma readlines_from_append:
  "xs \<noteq> [] \<Longrightarrow> last xs = CHR 0x0A \<Longrightarrow>
   readlines_from cur (xs @ ys) = readlines_from cur xs @ readlines_from [] ys"
proof (induction xs arbitrary: cur)
  case Nil
  then show ?case by simp
next
  case (Cons c xs)
  show ?case
  proof (cases "xs = []")
    case True
    with Cons.prems show ?thesis by simp
  next
    case False
    with Cons.prems have "last xs = CHR 0x0A" by simp
    with False Cons.IH show ?thesis by simp
  qed
qed

lemma readlines_append:
  "xs = [] \<or> last xs = CHR 0x0A \<Longrightarrow> readlines (xs @ ys) = readlines xs @ readlines ys"
  by (cases "xs = []") (simp_all add: readlines_def readlines_from_append)

lemma merge_lines_append:
  "merge_lines lib (xs @ ys) daily =
     (case merge_lines lib xs daily of
        (Some e, d) \<Rightarrow> (Some e, d)
      | (None, d) \<Rightarrow> merge_lines lib ys d)"
  by (induction xs arbitrary: daily) (simp_all split: sum.splits)

lemma scan_lines_spec:
  "scan_lines lib h daily = (e, d, h2) \<Longrightarrow>
   merge_lines lib (readlines (drop (h_pos h) (h_text h))) daily = (e, d)
   \<and> (e = None \<longrightarrow> telling h2 \<and> h_text h2 = h_text h
        \<and> h_pos h2 = max (h_pos h) (length (h_text h)))"
proof (induction lib h daily arbitrary: e d h2 rule: scan_lines.induct)
  case (1 lib h daily)
  obtain ol h1 where nl: "next_line h = (ol, h1)" by (cases "next_line h")
  show ?case
  proof (cases ol)
    case None
    with nl have empty: "drop (h_pos h) (h_text h) = []" and h1: "h1 = h\<lparr>telling := True\<rparr>"
      by (auto simp: next_line_def Let_def split: if_splits)
    from "1.prems" nl None have "e = None" "d = daily" "h2 = h1"
      by (simp_all add: scan_lines.simps [of lib h daily])
    with empty h1 show ?thesis by (simp add: max_def)
  next
    case (Some line)
    with nl have nl': "next_line h = (Some line, h1)" by simp
    note facts = next_line_Some [OF nl']
    have ne: "drop (h_pos h) (h_text h) \<noteq> []" using facts(3,5) by auto
    have rl: "readlines (drop (h_pos h) (h_text h))
        = line # readlines (drop (h_pos h1) (h_text h1))"
      using readlines_unfold [OF ne] facts(1,2,5) by (simp add: add.commute)
    show ?thesis
    proof (cases "merge_line lib line daily")
      case (Inl err)
      with "1.prems" nl' have "e = Some err" "d = daily"
        by (simp_all add: scan_lines.simps [of lib h daily])
      with rl Inl show ?thesis by simp
    next
      case (Inr daily1)
      with "1.prems" nl' have rec: "scan_lines lib h1 daily1 = (e, d, h2)"
        by (simp add: scan_lines.simps [of lib h daily])
      from "1.IH" [OF nl' [symmetric] refl Inr rec]
      have ih: "merge_lines lib (readlines (drop (h_pos h1) (h_text h1))) daily1 = (e, d)"
        and ih2: "e = None \<longrightarrow> telling h2 \<and> h_text h2 = h_text h1
            \<and> h_pos h2 = max (h_pos h1) (length (h_text h1))"
        by simp_all
      from ih rl Inr have "merge_lines lib (readlines (drop (h_pos h) (h_text h))) daily = (e, d)"
        by simp
      moreover have "e = None \<longrightarrow> telling h2 \<and> h_text h2 = h_text h
          \<and> h_pos h2 = max (h_pos h) (length (h_text h))"
        using ih2 facts(1,2,4) by (auto simp: max_def)
      ultimately show ?thesis by simp
    qed
  qed
qed

section \<open>The cache in terms of the lines read\<close>

lemma rebuild_eq:
  "rebuild lib now st_ino text c =
     (case merge_lines lib (readlines (drop (position c) text)) (daily_state c) of
        (Some e, d) \<Rightarrow> (Inl e, c\<lparr>daily_state := d\<rparr>)
      | (None, d) \<Rightarrow>
          (Inr (summaries_from_state d),
           c\<lparr>daily_state := d, position := max (position c) (length text),
             size_c := length text, inode := Some st_ino, build_ts := Some now,
             summary := summaries_from_state d\<rparr>))"
proof -
  define f1 where "f1 = (if position c \<noteq> 0 then seek (open_text text) (position c)
                         else open_text text)"
  have f1: "h_pos f1 = position c" "h_text f1 = text"
    by (simp_all add: f1_def seek_def open_text_def)
  obtain e d f2 where sc: "scan_lines lib f1 (daily_state c) = (e, d, f2)"
    by (cases "scan_lines lib f1 (daily_state c)")
  from scan_lines_spec [OF sc] f1
  have ml: "merge_lines lib (readlines (drop (position c) text)) (daily_state c) = (e, d)"
    and fin: "e = None \<longrightarrow> telling f2 \<and> h_pos f2 = max (position c) (length text)"
    by simp_all
  show ?thesis
  proof (cases e)
    case None
    with fin have "tell f2 = Inr (max (position c) (length text))" by (simp add: tell_def)
    then show ?thesis
      unfolding rebuild_def Let_def f1_def [symmetric] sc ml using None by simp
  next
    case (Some err)
    then show ?thesis
      unfolding rebuild_def Let_def f1_def [symmetric] sc ml by simp
  qed
qed

section \<open>The example logs, evaluated\<close>

lemmas example_defs = rec_a_def rec_b_def rec_c_def rec_d_def rec_e_def example_lib_def
  table_lib_def file_of_def

lemmas merge_eval = readlines_def strip_def isspace_def merge_line_def dict_get_def
  ensure_day_state_def new_day_state_def merge_record_def acc_names_def acc_rtt_def
  acc_loss_def acc_sent_received_def py_or_def Let_def

lemmas build_eval = build_daily_summary_from_file_def rebuild_eq reset_summary_cache_def
  summaries_from_state_def summary_row_def

lemma day_one_state:
  "merge_lines example_lib (readlines (file_of [rec_a, rec_b, rec_c])) [] =
     (None, [(''2024-06-01'',
        \<lparr>date = ''2024-06-01'', total_probes = 3, total_sent = 0, total_received = 0,
         loss_sum = 150, loss_count = 3, good_probes = 1, degraded_probes = 1,
         down_probes = 1, rtt_sum = 30.6, rtt_count = 2, rtt_min = Some 12.5,
         rtt_max = Some 18.1, targets = {}, public_ips = {}\<rparr>)])"
  by (simp add: example_defs merge_eval)

lemma day_one_summary:
  "fst (build_daily_summary_from_file example_lib now (Some (ino, file_of [rec_a, rec_b, rec_c]))
     reset_summary_cache) =
   Inr [\<lparr>row_date = ''2024-06-01'', row_total_probes = 3, uptime_pct = 200 / 3,
         avg_loss_pct = 50, avg_rtt_ms = Some 15.3, min_rtt_ms = Some 12.5,
         max_rtt_ms = Some 18.1, row_good_probes = 1, row_degraded_probes = 1,
         row_down_probes = 1, row_targets = [], row_public_ips = []\<rparr>]"
  by (simp add: build_eval day_one_state)

lemma day_two_state:
  "merge_lines example_lib (readlines (file_of [rec_d, rec_e])) [] =
     (None, [(''2024-06-02'',
        \<lparr>date = ''2024-06-02'', total_probes = 2, total_sent = 0, total_received = 0,
         loss_sum = 145, loss_count = 2, good_probes = 0, degraded_probes = 2,
         down_probes = 0, rtt_sum = 0, rtt_count = 0, rtt_min = None,
         rtt_max = None, targets = {}, public_ips = {}\<rparr>)])"
  by (simp add: example_defs merge_eval)

lemma day_two_summary:
  "fst (build_daily_summary_from_file example_lib now (Some (ino, file_of [rec_d, rec_e]))
     reset_summary_cache) =
   Inr [\<lparr>row_date = ''2024-06-02'', row_total_probes = 2, uptime_pct = 100,
         avg_loss_pct = 72.5, avg_rtt_ms = None, min_rtt_ms = None,
         max_rtt_ms = None, row_good_probes = 0, row_degraded_probes = 2,
         row_down_probes = 0, row_targets = [], row_public_ips = []\<rparr>]"
  by (simp add: build_eval day_two_state)

section \<open>Aggregation of one day\<close>

text \<open>
  Claim C7.  Merging a record adds one to the day's \<open>total_probes\<close>.  When its
  \<open>loss_pct\<close> is a number, the value is added to \<open>loss_sum\<close>, \<open>loss_count\<close> grows by
  one, and exactly one counter grows: \<open>good_probes\<close> when the value is 0,
  \<open>down_probes\<close> when it is 100, \<open>degraded_probes\<close> otherwise.  When it is not a
  number, no counter and no loss sum or count changes.  The row's \<open>uptime_pct\<close> is
  \<open>100 * (total_probes - down_probes) / total_probes\<close>, and 0 without probes.  Three
  records of one day with loss 0, 50 and 100 give 3 probes, 1 good, 1 degraded,
  1 down and an uptime of 200/3.
\<close>

theorem loss_classification:
  "(let loss = dict_get rec ''loss_pct''; d' = merge_record lib rec d in
      total_probes d' = total_probes d + 1
    \<and> (is_number loss \<longrightarrow>
          loss_sum d' = loss_sum d + num_val loss \<and> loss_count d' = loss_count d + 1)
    \<and> (is_number loss \<and> num_val loss = 0 \<longrightarrow>
          good_probes d' = good_probes d + 1 \<and> degraded_probes d' = degraded_probes d
          \<and> down_probes d' = down_probes d)
    \<and> (is_number loss \<and> num_val loss = 100 \<longrightarrow>
          down_probes d' = down_probes d + 1 \<and> good_probes d' = good_probes d
          \<and> degraded_probes d' = degraded_probes d)
    \<and> (is_number loss \<and> num_val loss \<noteq> 0 \<and> num_val loss \<noteq> 100 \<longrightarrow>
          degraded_probes d' = degraded_probes d + 1 \<and> good_probes d' = good_probes d
          \<and> down_probes d' = down_probes d)
    \<and> (\<not> is_number loss \<longrightarrow>
          good_probes d' = good_probes d \<and> degraded_probes d' = degraded_probes d
          \<and> down_probes d' = down_probes d \<and> loss_sum d' = loss_sum d
          \<and> loss_count d' = loss_count d))
   \<and> uptime_pct (summary_row day d) =
       (if total_probes d > 0
        then 100 * real_of_int (total_probes d - down_probes d) / real_of_int (total_probes d)
        else 0)
   \<and> (case fst (build_daily_summary_from_file example_lib now
                  (Some (ino, file_of [rec_a, rec_b, rec_c])) reset_summary_cache) of
         Inr rows \<Rightarrow> map (\<lambda>r. (row_total_probes r, row_good_probes r, row_degraded_probes r,
                                row_down_probes r, uptime_pct r)) rows
       | Inl e \<Rightarrow> []) = [(3, 1, 1, 1, 200 / 3)]"
  by (simp add: Let_def merge_record_loss summary_row_def day_one_summary)

theorem loss_classification_witness:
  "(let d = new_day_state ''2024-06-01'' in
      is_number (dict_get [(''loss_pct'', JInt 0)] ''loss_pct'')
    \<and> good_probes (merge_record example_lib [(''loss_pct'', JInt 0)] d) = 1
    \<and> down_probes (merge_record example_lib [(''loss_pct'', JInt 100)] d) = 1
    \<and> degraded_probes (merge_record example_lib [(''loss_pct'', JFloat 50)] d) = 1
    \<and> \<not> is_number (dict_get [(''loss_pct'', JString ''n/a'')] ''loss_pct'')
    \<and> total_probes (merge_record example_lib [(''loss_pct'', JString ''n/a'')] d) = 1
    \<and> loss_count (merge_record example_lib [(''loss_pct'', JString ''n/a'')] d) = 0)"
  using loss_classification [of "[(''loss_pct'', JInt 0)]" example_lib "new_day_state ''2024-06-01''"]
    loss_classification [of "[(''loss_pct'', JInt 100)]" example_lib "new_day_state ''2024-06-01''"]
    loss_classification [of "[(''loss_pct'', JFloat 50)]" example_lib "new_day_state ''2024-06-01''"]
    loss_classification [of "[(''loss_pct'', JString ''n/a'')]" example_lib "new_day_state ''2024-06-01''"]
  by (simp add: Let_def dict_get_def new_day_state_def)

text \<open>
  Claim C8.  A record whose \<open>rtt_avg_ms\<close> converts with \<^verbatim>\<open>float\<close> adds the value to
  \<open>rtt_sum\<close>, one to \<open>rtt_count\<close>, and moves \<open>rtt_min\<close> and \<open>rtt_max\<close> (the first
  value sets both); any other record leaves the four fields alone.  So the count
  after a sequence of records is the number of those that convert.  The row's
  \<open>avg_rtt_ms\<close> is the sum over the count, and \<open>None\<close> when the count is zero.  The
  values 12.5, absent and 18.1 give the average 15.3, the minimum 12.5, the
  maximum 18.1 and the count 2.
\<close>

theorem rtt_aggregation:
  "(let d' = merge_record lib rec d in
      case py_float lib (dict_get rec ''rtt_avg_ms'') of
        Some v \<Rightarrow>
          rtt_sum d' = rtt_sum d + v \<and> rtt_count d' = rtt_count d + 1
          \<and> rtt_min d' = (case rtt_min d of None \<Rightarrow> Some v | Some m \<Rightarrow> Some (min m v))
          \<and> rtt_max d' = (case rtt_max d of None \<Rightarrow> Some v | Some m \<Rightarrow> Some (max m v))
      | None \<Rightarrow>
          rtt_sum d' = rtt_sum d \<and> rtt_count d' = rtt_count d
          \<and> rtt_min d' = rtt_min d \<and> rtt_max d' = rtt_max d)
   \<and> rtt_count (fold (merge_record lib) recs d) =
       rtt_count d
       + int (length (filter (\<lambda>r. py_float lib (dict_get r ''rtt_avg_ms'') \<noteq> None) recs))
   \<and> avg_rtt_ms (summary_row day d) =
       (if rtt_count d > 0 then Some (rtt_sum d / real_of_int (rtt_count d)) else None)
   \<and> min_rtt_ms (summary_row day d) = rtt_min d
   \<and> max_rtt_ms (summary_row day d) = rtt_max d
   \<and> (case fst (build_daily_summary_from_file example_lib now
                  (Some (ino, file_of [rec_a, rec_b, rec_c])) reset_summary_cache) of
         Inr rows \<Rightarrow> map (\<lambda>r. (avg_rtt_ms r, min_rtt_ms r, max_rtt_ms r)) rows
       | Inl e \<Rightarrow> []) = [(Some 15.3, Some 12.5, Some 18.1)]
   \<and> map (rtt_count \<circ> snd)
       (snd (merge_lines example_lib (readlines (file_of [rec_a, rec_b, rec_c])) [])) = [2]"
proof -
  have cnt: "rtt_count (fold (merge_record lib) recs d) =
       rtt_count d
       + int (length (filter (\<lambda>r. py_float lib (dict_get r ''rtt_avg_ms'') \<noteq> None) recs))"
    by (induction recs arbitrary: d) (auto simp: merge_record_rtt split: option.splits)
  show ?thesis
    by (simp add: Let_def merge_record_rtt summary_row_def day_one_summary day_one_state cnt
        split: option.splits)
qed

theorem rtt_aggregation_witness:
  "(let d = new_day_state ''2024-06-01'';
        d1 = merge_record example_lib [(''rtt_avg_ms'', JFloat 12.5)] d;
        d2 = merge_record example_lib [] d1;
        d3 = merge_record example_lib [(''rtt_avg_ms'', JFloat 18.1)] d2 in
      py_float example_lib (dict_get [(''rtt_avg_ms'', JFloat 12.5)] ''rtt_avg_ms'') = Some 12.5
    \<and> py_float example_lib (dict_get [] ''rtt_avg_ms'') = None
    \<and> rtt_count d1 = 1 \<and> rtt_min d1 = Some 12.5 \<and> rtt_max d1 = Some 12.5
    \<and> rtt_count d2 = 1 \<and> rtt_sum d2 = 12.5
    \<and> rtt_count d3 = 2 \<and> rtt_sum d3 = 30.6 \<and> rtt_min d3 = Some 12.5 \<and> rtt_max d3 = Some 18.1)"
proof -
  define d where "d = new_day_state ''2024-06-01''"
  define d1 where "d1 = merge_record example_lib [(''rtt_avg_ms'', JFloat 12.5)] d"
  define d2 where "d2 = merge_record example_lib [] d1"
  define d3 where "d3 = merge_record example_lib [(''rtt_avg_ms'', JFloat 18.1)] d2"
  have d0: "rtt_sum d = 0" "rtt_count d = 0" "rtt_min d = None" "rtt_max d = None"
    by (simp_all add: d_def new_day_state_def)
  have s1: "rtt_count d1 = 1 \<and> rtt_sum d1 = 12.5 \<and> rtt_min d1 = Some 12.5 \<and> rtt_max d1 = Some 12.5"
    using rtt_aggregation [of example_lib "[(''rtt_avg_ms'', JFloat 12.5)]" d "[]" "[]"] d0
    by (simp add: Let_def dict_get_def d1_def)
  have s2: "rtt_count d2 = 1 \<and> rtt_sum d2 = 12.5 \<and> rtt_min d2 = Some 12.5 \<and> rtt_max d2 = Some 12.5"
    using rtt_aggregation [of example_lib "[]" d1 "[]" "[]"] s1
    by (simp add: Let_def dict_get_def d2_def)
  have s3: "rtt_count d3 = 2 \<and> rtt_sum d3 = 30.6 \<and> rtt_min d3 = Some 12.5 \<and> rtt_max d3 = Some 18.1"
    using rtt_aggregation [of example_lib "[(''rtt_avg_ms'', JFloat 18.1)]" d2 "[]" "[]"] s2
    by (simp add: Let_def dict_get_def d3_def)
  show ?thesis
    using s1 s2 s3 by (simp add: Let_def dict_get_def d_def d1_def d2_def d3_def)
qed

text \<open>
  Claim C10.  No range check: a record whose \<open>loss_pct\<close> is a number below 0 or
  above 100 is added to the loss sum and count, counts as degraded, and leaves
  \<open>down_probes\<close> alone, so it counts as up in \<open>uptime_pct\<close>.  The values 150 and -5
  on one day give 2 probes, 2 degraded, none down, the average loss 72.5 and an
  uptime of 100.
\<close>

theorem loss_out_of_range:
  "(let loss = dict_get rec ''loss_pct''; d' = merge_record lib rec d in
      is_number loss \<and> (num_val loss < 0 \<or> 100 < num_val loss) \<longrightarrow>
        loss_sum d' = loss_sum d + num_val loss
      \<and> loss_count d' = loss_count d + 1
      \<and> degraded_probes d' = degraded_probes d + 1
      \<and> good_probes d' = good_probes d
      \<and> down_probes d' = down_probes d
      \<and> total_probes d' - down_probes d' = (total_probes d - down_probes d) + 1)
   \<and> (case fst (build_daily_summary_from_file example_lib now
                  (Some (ino, file_of [rec_d, rec_e])) reset_summary_cache) of
         Inr rows \<Rightarrow> map (\<lambda>r. (row_total_probes r, row_degraded_probes r, row_good_probes r,
                                row_down_probes r, avg_loss_pct r, uptime_pct r)) rows
       | Inl e \<Rightarrow> []) = [(2, 2, 0, 0, 72.5, 100)]"
  by (simp add: Let_def merge_record_loss day_two_summary)

theorem loss_out_of_range_witness:
  "(let d = new_day_state ''2024-06-02'';
        d1 = merge_record example_lib [(''loss_pct'', JInt 150)] d;
        d2 = merge_record example_lib [(''loss_pct'', JInt (- 5))] d in
      is_number (JInt 150) \<and> 100 < num_val (JInt 150)
    \<and> is_number (JInt (- 5)) \<and> num_val (JInt (- 5)) < 0
    \<and> loss_sum d1 = 150 \<and> loss_count d1 = 1 \<and> degraded_probes d1 = 1 \<and> down_probes d1 = 0
    \<and> loss_sum d2 = - 5 \<and> loss_count d2 = 1 \<and> degraded_probes d2 = 1 \<and> down_probes d2 = 0)"
  using loss_out_of_range [of "[(''loss_pct'', JInt 150)]" example_lib "new_day_state ''2024-06-02''"]
    loss_out_of_range [of "[(''loss_pct'', JInt (- 5))]" example_lib "new_day_state ''2024-06-02''"]
  by (simp add: Let_def dict_get_def new_day_state_def)

section \<open>The summary cache: rotation, repeated calls, the stored position\<close>

lemma old_log_state:
  "merge_lines example_lib (readlines (file_of [rec_a, rec_b])) [] =
     (None, [(''2024-06-01'',
        \<lparr>date = ''2024-06-01'', total_probes = 2, total_sent = 0, total_received = 0,
         loss_sum = 50, loss_count = 2, good_probes = 1, degraded_probes = 1,
         down_probes = 0, rtt_sum = 12.5, rtt_count = 1, rtt_min = Some 12.5,
         rtt_max = Some 12.5, targets = {}, public_ips = {}\<rparr>)])"
  by (simp add: example_defs merge_eval)

lemma new_log_state:
  "merge_lines example_lib (readlines (file_of [rec_d])) [] =
     (None, [(''2024-06-02'',
        \<lparr>date = ''2024-06-02'', total_probes = 1, total_sent = 0, total_received = 0,
         loss_sum = 150, loss_count = 1, good_probes = 0, degraded_probes = 1,
         down_probes = 0, rtt_sum = 0, rtt_count = 0, rtt_min = None,
         rtt_max = None, targets = {}, public_ips = {}\<rparr>)])"
  by (simp add: example_defs merge_eval)

text \<open>
  Claim C6.  When the log file has another inode than the cached one, or is shorter
  than the cached size, the call gives exactly what a call on an empty cache gives:
  the outcome and the new cache are a function of the new file alone, so no day,
  count or set of the old file is left.
\<close>

theorem rotation_discards_old_state:
  assumes "inode c \<noteq> Some st_ino \<or> length text < size_c c"
  shows "build_daily_summary_from_file lib now (Some (st_ino, text)) c =
     (case merge_lines lib (readlines text) [] of
        (Some e, d) \<Rightarrow> (Inl e, reset_summary_cache\<lparr>daily_state := d\<rparr>)
      | (None, d) \<Rightarrow>
          (Inr (summaries_from_state d),
           \<lparr>daily_state = d, summary = summaries_from_state d, position = length text,
            inode = Some st_ino, size_c = length text, build_ts = Some now\<rparr>))"
  using assms
  by (simp add: build_daily_summary_from_file_def rebuild_eq reset_summary_cache_def
      split: prod.splits option.splits)

theorem rotation_discards_old_state_witness:
  "(let c = snd (build_daily_summary_from_file example_lib 1
                   (Some (11, file_of [rec_a, rec_b])) reset_summary_cache)
    in (inode c \<noteq> Some 12 \<or> length (file_of [rec_d]) < size_c c)
       \<and> map row_date (summary c) = [''2024-06-01'']
       \<and> (case fst (build_daily_summary_from_file example_lib 2
                       (Some (12, file_of [rec_d])) c) of
             Inr rows \<Rightarrow> map (\<lambda>r. (row_date r, row_total_probes r)) rows
           | Inl e \<Rightarrow> []) = [(''2024-06-02'', 1)]
       \<and> map fst (daily_state (snd (build_daily_summary_from_file example_lib 2
                       (Some (12, file_of [rec_d])) c))) = [''2024-06-02''])"
proof -
  define c where "c = snd (build_daily_summary_from_file example_lib 1
                   (Some (11, file_of [rec_a, rec_b])) reset_summary_cache)"
  have c: "inode c = Some 11" "map row_date (summary c) = [''2024-06-01'']"
    by (simp_all add: c_def build_eval old_log_state)
  then have rot: "inode c \<noteq> Some 12 \<or> length (file_of [rec_d]) < size_c c" by simp
  show ?thesis
    using rotation_discards_old_state [OF rot, of example_lib 2] c
    by (simp add: c_def [symmetric] new_log_state summaries_from_state_def summary_row_def)
qed

lemma blank_log_first:
  "build_daily_summary_from_file example_lib now blank_log reset_summary_cache =
     (Inr [], \<lparr>daily_state = [], summary = [], position = 2, inode = Some 11,
               size_c = 2, build_ts = Some now\<rparr>)"
  by (simp add: blank_log_def build_eval merge_eval)

lemma blank_log_second:
  "build_daily_summary_from_file example_lib now blank_log
     \<lparr>daily_state = [], summary = [], position = 2, inode = Some 11,
      size_c = 2, build_ts = ts\<rparr> =
     (Inr [], \<lparr>daily_state = [], summary = [], position = 2, inode = Some 11,
               size_c = 2, build_ts = Some now\<rparr>)"
  by (simp add: blank_log_def build_eval merge_eval)

text \<open>
  Claim C9 as stated.  The claim is that for every cache state the second of two
  calls on an unchanged file does not read the file again.  The code returns the
  cached list only when it is not empty (\<^verbatim>\<open>and cache["summary"]\<close>): on a log
  without any record that can be aggregated, here two blank lines, the second call
  opens the file again at the saved position and stores a new \<^verbatim>\<open>build_ts\<close>.
\<close>

theorem idempotent_snapshot_counterexample:
  "fst (build_daily_summary_from_file example_lib 1 blank_log reset_summary_cache) = Inr []
   \<and> build_ts (snd (build_daily_summary_from_file example_lib 1 blank_log
        reset_summary_cache)) = Some 1
   \<and> build_ts (snd (build_daily_summary_from_file example_lib 2 blank_log
        (snd (build_daily_summary_from_file example_lib 1 blank_log
           reset_summary_cache)))) = Some 2
   \<and> snd (build_daily_summary_from_file example_lib 2 blank_log
        (snd (build_daily_summary_from_file example_lib 1 blank_log reset_summary_cache)))
      \<noteq> snd (build_daily_summary_from_file example_lib 1 blank_log reset_summary_cache)"
  by (simp add: blank_log_first blank_log_second)

text \<open>
  Claim C9, amended.  When the first call returns a snapshot, the second call on the same
  file returns the same snapshot and leaves every field of the cache but
  \<^verbatim>\<open>build_ts\<close> as it was, the days included, and there is no line left to read from
  the saved position.  When the snapshot is not empty (and the cache had its
  position within its size, as every cache the code builds has), the second call
  returns the cached list and changes nothing at all.
\<close>

theorem idempotent_snapshot:
  assumes first: "build_daily_summary_from_file lib now1 logfile c = (Inr r1, c1)"
  shows "fst (build_daily_summary_from_file lib now2 logfile c1) = Inr r1
   \<and> snd (build_daily_summary_from_file lib now2 logfile c1) =
       c1\<lparr>build_ts := build_ts (snd (build_daily_summary_from_file lib now2 logfile c1))\<rparr>
   \<and> (r1 \<noteq> [] \<and> position c \<le> size_c c \<longrightarrow>
        build_daily_summary_from_file lib now2 logfile c1 = (Inr r1, c1))
   \<and> (case logfile of
         None \<Rightarrow> True
       | Some (st_ino, text) \<Rightarrow> readlines (drop (position c1) text) = [])"
proof (cases logfile)
  case None
  with first show ?thesis
    by (auto simp: build_daily_summary_from_file_def)
next
  case (Some f)
  obtain st_ino content where f: "f = (st_ino, content)" by (cases f)
  define c0 where "c0 = (if inode c \<noteq> Some st_ino \<or> length content < size_c c
                         then reset_summary_cache else c)"
  show ?thesis
  proof (cases "inode c0 = Some st_ino \<and> position c0 = length content \<and> summary c0 \<noteq> []")
    case True
    then have nr: "\<not> (inode c \<noteq> Some st_ino \<or> length content < size_c c)"
      by (auto simp: c0_def reset_summary_cache_def split: if_splits)
    then have c0c: "c0 = c" by (simp add: c0_def)
    have b1: "build_daily_summary_from_file lib now logfile c = (Inr (summary c), c)" for now
      using True nr Some f c0c by (simp add: build_daily_summary_from_file_def)
    from first b1 [of now1] have c1: "c1 = c" and r1: "r1 = summary c" by auto
    have nothing: "readlines (drop (position c) content) = []"
      using True c0c by simp
    have part: "case logfile of None \<Rightarrow> True
        | Some (st_ino, text) \<Rightarrow> readlines (drop (position c1) text) = []"
      unfolding Some f c1 option.case prod.case by (fact nothing)
    have two: "build_daily_summary_from_file lib now2 logfile c1 = (Inr r1, c1)"
      using b1 [of now2] by (simp add: c1 r1)
    show ?thesis
      unfolding two using part by simp
  next
    case False
    have unf: "build_daily_summary_from_file lib now logfile cc =
        rebuild lib now st_ino content cc"
      if "\<not> (inode cc \<noteq> Some st_ino \<or> length content < size_c cc)"
        and "\<not> (inode cc = Some st_ino \<and> position cc = length content \<and> summary cc \<noteq> [])"
      for now cc
      using that by (auto simp: build_daily_summary_from_file_def Some f)
    have "build_daily_summary_from_file lib now1 logfile c = rebuild lib now1 st_ino content c0"
      unfolding build_daily_summary_from_file_def Some f option.case prod.case Let_def
        c0_def [symmetric]
      using False by auto
    with first have rb: "rebuild lib now1 st_ino content c0 = (Inr r1, c1)" by simp
    obtain e d where ml: "merge_lines lib (readlines (drop (position c0) content)) (daily_state c0)
        = (e, d)"
      by (cases "merge_lines lib (readlines (drop (position c0) content)) (daily_state c0)")
    from rb ml have e: "e = None"
      by (cases e) (simp_all add: rebuild_eq)
    from rb ml e have r1: "r1 = summaries_from_state d"
      and c1: "c1 = c0\<lparr>daily_state := d, position := max (position c0) (length content),
             size_c := length content, inode := Some st_ino, build_ts := Some now1,
             summary := summaries_from_state d\<rparr>"
      by (auto simp: rebuild_eq)
    have pos: "length content \<le> position c1" by (simp add: c1)
    have small: "position c \<le> size_c c \<Longrightarrow> position c1 = length content"
      by (auto simp: c1 c0_def reset_summary_cache_def max_def)
    have nothing: "readlines (drop (position c1) content) = []"
      using pos by simp
    have inode1: "inode c1 = Some st_ino" "size_c c1 = length content"
      "summary c1 = r1" "daily_state c1 = d"
      by (simp_all add: c1 r1)
    have part: "case logfile of None \<Rightarrow> True
        | Some (st_ino, text) \<Rightarrow> readlines (drop (position c1) text) = []"
      unfolding Some f option.case prod.case by (fact nothing)
    show ?thesis
    proof (cases "position c1 = length content \<and> r1 \<noteq> []")
      case True
      then have two: "build_daily_summary_from_file lib now2 logfile c1 = (Inr r1, c1)"
        using inode1 by (simp add: build_daily_summary_from_file_def Some f)
      show ?thesis unfolding two using part by simp
    next
      case False
      then have "build_daily_summary_from_file lib now2 logfile c1 =
          rebuild lib now2 st_ino content c1"
        using inode1 by (intro unf) auto
      also have "\<dots> = (Inr r1, c1\<lparr>build_ts := Some now2\<rparr>)"
        using pos by (simp add: rebuild_eq nothing inode1 r1 [symmetric] max_def c1)
      finally have two: "build_daily_summary_from_file lib now2 logfile c1 =
          (Inr r1, c1\<lparr>build_ts := Some now2\<rparr>)" .
      have "\<not> (r1 \<noteq> [] \<and> position c \<le> size_c c)"
        using False small by auto
      then show ?thesis unfolding two using part by auto
    qed
  qed
qed

theorem idempotent_snapshot_witness:
  "build_daily_summary_from_file example_lib 1 (Some (11, file_of [rec_a, rec_b]))
       reset_summary_cache =
     (Inr (summaries_from_state
             (snd (merge_lines example_lib (readlines (file_of [rec_a, rec_b])) []))),
      \<lparr>daily_state = snd (merge_lines example_lib (readlines (file_of [rec_a, rec_b])) []),
       summary = summaries_from_state
             (snd (merge_lines example_lib (readlines (file_of [rec_a, rec_b])) [])),
       position = length (file_of [rec_a, rec_b]), inode = Some 11,
       size_c = length (file_of [rec_a, rec_b]), build_ts = Some 1\<rparr>)
   \<and> map row_date (case fst (build_daily_summary_from_file example_lib 2
         (Some (11, file_of [rec_a, rec_b]))
         \<lparr>daily_state = snd (merge_lines example_lib (readlines (file_of [rec_a, rec_b])) []),
          summary = summaries_from_state
             (snd (merge_lines example_lib (readlines (file_of [rec_a, rec_b])) [])),
          position = length (file_of [rec_a, rec_b]), inode = Some 11,
          size_c = length (file_of [rec_a, rec_b]), build_ts = Some 1\<rparr>) of
        Inr rows \<Rightarrow> rows | Inl e \<Rightarrow> []) = [''2024-06-01'']"
proof -
  have first: "build_daily_summary_from_file example_lib 1 (Some (11, file_of [rec_a, rec_b]))
       reset_summary_cache =
     (Inr (summaries_from_state
             (snd (merge_lines example_lib (readlines (file_of [rec_a, rec_b])) []))),
      \<lparr>daily_state = snd (merge_lines example_lib (readlines (file_of [rec_a, rec_b])) []),
       summary = summaries_from_state
             (snd (merge_lines example_lib (readlines (file_of [rec_a, rec_b])) [])),
       position = length (file_of [rec_a, rec_b]), inode = Some 11,
       size_c = length (file_of [rec_a, rec_b]), build_ts = Some 1\<rparr>)"
    by (simp add: build_daily_summary_from_file_def rebuild_eq reset_summary_cache_def
        old_log_state)
  show ?thesis
    using idempotent_snapshot [OF first, of 2] first
    by (simp add: old_log_state summaries_from_state_def summary_row_def)
qed





section \<open>Incremental and batch merging\<close>

lemma merge_line_raises:
  "(\<exists>e. merge_line lib line daily = Inl e) \<longleftrightarrow> \<not> line_ok lib line"
  by (auto simp: line_ok_def merge_line_def Let_def
      split: option.splits json.splits if_splits sum.splits)

lemma merge_lines_ok:
  "\<forall>l\<in>set ls. line_ok lib l \<Longrightarrow> fst (merge_lines lib ls daily) = None"
proof (induction ls arbitrary: daily)
  case Nil
  show ?case by simp
next
  case (Cons l ls)
  then have "line_ok lib l" by simp
  with merge_line_raises [of lib l daily] obtain d where "merge_line lib l daily = Inr d"
    by (cases "merge_line lib l daily") auto
  with Cons show ?case by simp
qed

lemma all_terminated_append: "all_terminated xs \<Longrightarrow> all_terminated ys \<Longrightarrow> all_terminated (xs @ ys)"
  by (cases "ys = []") (auto simp: all_terminated_def)

lemma build_fresh_read_all:
  assumes "\<forall>l\<in>set (readlines text). line_ok lib l"
  shows "read_all lib st_ino text
     (build_daily_summary_from_file lib now (Some (st_ino, text)) reset_summary_cache)"
proof -
  obtain e d where ml: "merge_lines lib (readlines text) [] = (e, d)"
    by (cases "merge_lines lib (readlines text) []")
  with merge_lines_ok [OF assms, of "[]"] have "e = None" by simp
  with ml show ?thesis
    by (simp add: read_all_def build_daily_summary_from_file_def rebuild_eq
        reset_summary_cache_def)
qed

lemma build_step_read_all:
  assumes inv: "read_all lib st_ino text rc"
    and comp: "all_terminated text"
    and ok: "\<forall>l\<in>set (readlines (text @ chunk)). line_ok lib l"
  shows "read_all lib st_ino (text @ chunk)
     (build_daily_summary_from_file lib now (Some (st_ino, text @ chunk)) (snd rc))"
proof -
  define c where "c = snd rc"
  define d where "d = snd (merge_lines lib (readlines text) [])"
  have rl: "readlines (text @ chunk) = readlines text @ readlines chunk"
    using comp by (intro readlines_append) (simp add: all_terminated_def)
  from inv have c: "daily_state c = d" "summary c = summaries_from_state d"
    "position c = length text" "size_c c = length text" "inode c = Some st_ino"
    by (simp_all add: read_all_def c_def d_def Let_def)
  have ok1: "fst (merge_lines lib (readlines text) []) = None"
    using ok rl by (intro merge_lines_ok) simp
  then have m1: "merge_lines lib (readlines text) [] = (None, d)"
    by (simp add: d_def prod_eq_iff)
  obtain e2 d2 where m2: "merge_lines lib (readlines chunk) d = (e2, d2)"
    by (cases "merge_lines lib (readlines chunk) d")
  have "fst (merge_lines lib (readlines chunk) d) = None"
    using ok rl by (intro merge_lines_ok) simp
  with m2 have e2: "e2 = None" by simp
  have all: "merge_lines lib (readlines (text @ chunk)) [] = (None, d2)"
    by (simp add: rl merge_lines_append m1 m2 e2)
  show ?thesis
  proof (cases "chunk = [] \<and> summary c \<noteq> []")
    case True
    then have "build_daily_summary_from_file lib now (Some (st_ino, text @ chunk)) c
        = (Inr (summary c), c)"
      using c by (simp add: build_daily_summary_from_file_def)
    moreover have "d2 = d" using True m2 by simp
    ultimately show ?thesis
      using c all True by (simp add: read_all_def c_def [symmetric])
  next
    case False
    then have "build_daily_summary_from_file lib now (Some (st_ino, text @ chunk)) c
        = rebuild lib now st_ino (text @ chunk) c"
      using c by (auto simp: build_daily_summary_from_file_def)
    then show ?thesis
      using c all m2 e2
      by (simp add: read_all_def c_def [symmetric] rebuild_eq)
  qed
qed

lemma grow_and_poll_read_all:
  assumes "read_all lib st_ino t rc"
    and "all_terminated t"
    and "\<forall>step\<in>set steps. all_terminated (snd step)"
    and "\<forall>l\<in>set (readlines (t @ concat (map snd steps))). line_ok lib l"
  shows "read_all lib st_ino (t @ concat (map snd steps))
     (grow_and_poll lib st_ino t steps rc)"
  using assms
proof (induction steps arbitrary: t rc)
  case Nil
  then show ?case by simp
next
  case (Cons step steps)
  obtain now chunk where step: "step = (now, chunk)" by (cases step)
  have cc: "all_terminated chunk" using Cons.prems(3) step by simp
  have ct: "all_terminated (t @ chunk)" using Cons.prems(2) cc by (rule all_terminated_append)
  have rl: "readlines ((t @ chunk) @ concat (map snd steps))
      = readlines (t @ chunk) @ readlines (concat (map snd steps))"
    using ct by (intro readlines_append) (simp add: all_terminated_def)
  have ok: "\<forall>l\<in>set (readlines (t @ chunk)). line_ok lib l"
    using Cons.prems(4) rl step by simp
  have inv: "read_all lib st_ino (t @ chunk)
     (build_daily_summary_from_file lib now (Some (st_ino, t @ chunk)) (snd rc))"
    using Cons.prems(1,2) ok by (rule build_step_read_all)
  have "read_all lib st_ino ((t @ chunk) @ concat (map snd steps))
     (grow_and_poll lib st_ino (t @ chunk) steps
        (build_daily_summary_from_file lib now (Some (st_ino, t @ chunk)) (snd rc)))"
    using inv ct Cons.prems(3,4) step by (intro Cons.IH) simp_all
  then show ?case by (simp add: step)
qed

text \<open>
  Claim C4.  Records are appended in chunks of complete lines, none of which makes
  the loop raise (valid records are such lines), and the summary is asked for after
  each chunk, the inode staying the same.  The snapshot of the last call is the
  snapshot of one call on an empty cache that reads the whole file, and so are the
  days behind it.
\<close>

theorem incremental_equals_batch:
  assumes "steps \<noteq> []"
    and "\<forall>step\<in>set steps. all_terminated (snd step)"
    and "\<forall>l\<in>set (readlines (concat (map snd steps))). line_ok lib l"
  shows "fst (grow_and_poll lib st_ino [] steps (Inr [], reset_summary_cache))
      = fst (build_daily_summary_from_file lib now
               (Some (st_ino, concat (map snd steps))) reset_summary_cache)
   \<and> fst (grow_and_poll lib st_ino [] steps (Inr [], reset_summary_cache))
      = Inr (summaries_from_state
               (snd (merge_lines lib (readlines (concat (map snd steps))) [])))
   \<and> daily_state (snd (grow_and_poll lib st_ino [] steps (Inr [], reset_summary_cache)))
      = daily_state (snd (build_daily_summary_from_file lib now
               (Some (st_ino, concat (map snd steps))) reset_summary_cache))"
proof -
  obtain now1 chunk rest where steps: "steps = (now1, chunk) # rest"
    using assms(1) by (cases steps) auto
  have cc: "all_terminated chunk" using assms(2) steps by simp
  have rl: "readlines (chunk @ concat (map snd rest))
      = readlines chunk @ readlines (concat (map snd rest))"
    using cc by (intro readlines_append) (simp add: all_terminated_def)
  have ok1: "\<forall>l\<in>set (readlines chunk). line_ok lib l"
    using assms(3) rl steps by simp
  have inv1: "read_all lib st_ino chunk
      (build_daily_summary_from_file lib now1 (Some (st_ino, chunk)) reset_summary_cache)"
    using ok1 by (rule build_fresh_read_all)
  have incr: "read_all lib st_ino (chunk @ concat (map snd rest))
      (grow_and_poll lib st_ino chunk rest
         (build_daily_summary_from_file lib now1 (Some (st_ino, chunk)) reset_summary_cache))"
    using inv1 cc assms(2,3) steps by (intro grow_and_poll_read_all) simp_all
  have batch: "read_all lib st_ino (concat (map snd steps))
      (build_daily_summary_from_file lib now (Some (st_ino, concat (map snd steps)))
         reset_summary_cache)"
    using assms(3) by (rule build_fresh_read_all)
  from incr batch show ?thesis
    by (simp add: steps read_all_def Let_def)
qed

theorem incremental_equals_batch_witness:
  "[(1, file_of [rec_a]), (2, file_of [rec_b, rec_c])] \<noteq> []
   \<and> all_terminated (file_of [rec_a]) \<and> all_terminated (file_of [rec_b, rec_c])
   \<and> list_all (line_ok example_lib) (readlines (file_of [rec_a, rec_b, rec_c]))
   \<and> fst (grow_and_poll example_lib 11 [] [(1, file_of [rec_a]), (2, file_of [rec_b, rec_c])]
        (Inr [], reset_summary_cache))
      = fst (build_daily_summary_from_file example_lib 3
          (Some (11, file_of [rec_a, rec_b, rec_c])) reset_summary_cache)
   \<and> (case fst (grow_and_poll example_lib 11 []
          [(1, file_of [rec_a]), (2, file_of [rec_b, rec_c])] (Inr [], reset_summary_cache)) of
         Inr rows \<Rightarrow> map (\<lambda>r. (row_date r, row_total_probes r)) rows
       | Inl e \<Rightarrow> []) = [(''2024-06-01'', 3)]"
proof -
  have cat: "concat (map snd [(1::real, file_of [rec_a]), (2, file_of [rec_b, rec_c])])
      = file_of [rec_a, rec_b, rec_c]"
    by (simp add: file_of_def)
  have ok: "list_all (line_ok example_lib) (readlines (file_of [rec_a, rec_b, rec_c]))"
    by (simp add: example_defs merge_eval line_ok_def)
  have comp: "all_terminated (file_of [rec_a])" "all_terminated (file_of [rec_b, rec_c])"
    by (simp_all add: all_terminated_def file_of_def)
  have h1: "[(1::real, file_of [rec_a]), (2, file_of [rec_b, rec_c])] \<noteq> []" by simp
  have h2: "\<forall>step\<in>set [(1::real, file_of [rec_a]), (2, file_of [rec_b, rec_c])].
      all_terminated (snd step)"
    using comp by simp
  have h3: "\<forall>l\<in>set (readlines (concat (map snd
      [(1::real, file_of [rec_a]), (2, file_of [rec_b, rec_c])]))). line_ok example_lib l"
    using ok unfolding cat by (simp add: list_all_iff)
  show ?thesis
    using incremental_equals_batch [OF h1 h2 h3, of 11 3] ok comp
    unfolding cat
    by (simp add: day_one_summary)
qed

section \<open>Recent records\<close>







section \<open>The relay: the status record and the saved offset\<close>



text \<open>
  Inside \<^verbatim>\<open>for line in handle\<close> the call \<^verbatim>\<open>handle.tell()\<close> raises \<^verbatim>\<open>OSError\<close>, before
  anything is published, so a pass over the log leaves the relay as it was at the
  start of the loop, whatever the lines are.
\<close>

lemma relay_lines_state:
  "snd (relay_lines lib prefix link h r) = r"
proof (induction lib prefix link h r rule: relay_lines.induct)
  case (1 lib prefix link h r)
  obtain ol h1 where nl: "next_line h = (ol, h1)" by (cases "next_line h")
  show ?case
  proof (cases ol)
    case None
    with nl show ?thesis by (simp add: relay_lines.simps [of lib prefix link h r])
  next
    case (Some raw)
    with nl have nl': "next_line h = (Some raw, h1)" by simp
    have t: "tell h1 = Inl OSError"
      using next_line_Some(6) [OF nl'] by (simp add: tell_def)
    show ?thesis
    proof (cases "strip raw = []")
      case True
      with "1.IH"(1) [OF nl' [symmetric] refl True] nl' show ?thesis
        by (simp add: relay_lines.simps [of lib prefix link h r])
    next
      case False
      with nl' t show ?thesis
        by (simp add: relay_lines.simps [of lib prefix link h r])
    qed
  qed
qed

text \<open>
  Claim C5.  The claim is that every new complete line is published and that the
  saved offset advances past it.  On a log of one record, with a broker that accepts
  every message, the first pass ends with \<^verbatim>\<open>OSError\<close> (which \<^verbatim>\<open>run\<close> catches, to sleep
  and poll again), nothing has been delivered and the saved offset is still 0; and
  on every log a pass changes the relay only by the reset at a new inode or a
  shorter file.
\<close>

theorem relay_never_advances:
  "run_pass example_lib ''connectivity'' (\<lambda>topic payload. True) (Some (11, file_of [rec_a]))
     \<lparr>last_size = 0, last_inode = None, delivered = []\<rparr>
   = (Some OSError, \<lparr>last_size = 0, last_inode = Some 11, delivered = []\<rparr>)
   \<and> snd (run_pass lib prefix link (Some (st_ino, text)) r)
      = (if last_inode r \<noteq> Some st_ino \<or> length text < last_size r
         then r\<lparr>last_size := 0, last_inode := Some st_ino\<rparr> else r)"
proof -
  let ?r = "\<lparr>last_size = 0, last_inode = Some 11, delivered = []\<rparr>"
  let ?h = "seek (open_text (file_of [rec_a])) 0"
  have nl: "next_line ?h = (Some (rec_a @ [CHR 0x0A]),
      ?h\<lparr>h_pos := length (rec_a @ [CHR 0x0A]), telling := False\<rparr>)"
    by (simp add: next_line_def seek_def open_text_def file_of_def readline_def rec_a_def
        Let_def)
  have st: "strip (rec_a @ [CHR 0x0A]) \<noteq> []"
    by (simp add: strip_def isspace_def rec_a_def)
  have "relay_lines example_lib ''connectivity'' (\<lambda>topic payload. True) ?h ?r
      = (Some OSError, ?r)"
    by (subst relay_lines.simps) (simp add: nl st tell_def)
  then show ?thesis
    using relay_lines_state by (simp add: run_pass_def Let_def)
qed

theorem relay_never_advances_witness:
  "last_inode \<lparr>last_size = 0, last_inode = None, delivered = []\<rparr> \<noteq> Some 11
   \<and> snd (run_pass example_lib ''connectivity'' (\<lambda>topic payload. False)
        (Some (11, file_of [rec_a, rec_b]))
        \<lparr>last_size = 0, last_inode = None, delivered = []\<rparr>)
      = \<lparr>last_size = 0, last_inode = Some 11, delivered = []\<rparr>"
  using relay_never_advances [of example_lib "''connectivity''" "\<lambda>topic payload. False" 11
      "file_of [rec_a, rec_b]" "\<lparr>last_size = 0, last_inode = None, delivered = []\<rparr>"]
  by simp

end
